theory Spec2Isabelle
  imports Main "HOL-Library.Word"
begin

section \<open>Path ingestion and rendering (client-v2/path.cpp)\<close>

text \<open>
  The firmware runs on an AVR board: \<open>int\<close>, \<open>unsigned\<close>, \<open>size_t\<close> and
  pointers are 16 bits wide, \<open>long\<close> is 32 bits. Every integer of the source is a word
  of its declared width, so that the conversions the compiler inserts are visible.
\<close>

subsection \<open>Data\<close>

text \<open>\<open>coord_t\<close> (declared in map.h): the two fields receive the \<open>int32_t\<close> that
  \<open>string_get_int\<close> returns.\<close>

record coord_t =
  lat :: "32 word"
  lon :: "32 word"

text \<open>\<open>tft.drawLine(x0, y0, x1, y1, color)\<close> of the display library takes four
  \<open>int16_t\<close> and a 16-bit colour.\<close>

datatype draw_cmd = DrawLine "16 word" "16 word" "16 word" "16 word" "16 word"

text \<open>What goes out on the serial port: \<open>Serial.print\<close> and \<open>Serial.println\<close> of a
  string or of a \<open>long\<close>.\<close>

datatype serial_ev =
    Print_str string
  | Print_long "32 word"
  | Println_str string
  | Println_long "32 word"

text \<open>
  The globals the two routines touch. \<open>path_errno\<close> is declared in path.cpp itself; the
  map number, the viewport origin and the window size are the globals of map.h, taken as
  16-bit unsigned like the locals \<open>point_map_x\<close> and \<open>point_map_y\<close> they are
  compared with. \<open>serial_in\<close> holds the bytes that will arrive on the serial port,
  \<open>serial_out\<close> what was printed, \<open>tft\<close> the drawing commands issued and
  \<open>mallocs\<close> the sizes requested from the allocator, each oldest first.
\<close>

record world =
  path_errno :: "16 word"
  current_map_num :: "8 word"
  screen_map_x :: "16 word"
  screen_map_y :: "16 word"
  display_window_width :: "16 word"
  display_window_height :: "16 word"
  serial_in :: "char list"
  serial_out :: "serial_ev list"
  tft :: "draw_cmd list"
  mallocs :: "16 word list"

text \<open>
  The collaborators whose code is not part of path.cpp are parameters of the model:
  \<^item> \<open>AVAIL_MEM\<close> (mem_syms.h), the free memory at the time of the call, a 16-bit
    quantity on this target, and \<open>sizeof(coord_t)\<close>, a \<open>size_t\<close>;
  \<^item> \<open>malloc_ok n\<close>: whether \<open>malloc(n)\<close> returns a block;
  \<^item> \<open>serial_readline line_size\<close> on the pending input: the line read and the input
    left, or \<open>None\<close> when the line never completes and the call blocks for ever;
  \<^item> \<open>string_read_field line start field_size delims\<close>: the field and the index after
    it; \<open>string_get_int\<close>: the \<open>int32_t\<close> parsed from a field;
  \<^item> \<open>latitude_to_y\<close> and \<open>longitude_to_x\<close> of the map layer, returning \<open>int32_t\<close>.
\<close>

record platform =
  AVAIL_MEM :: "16 word"
  sizeof_coord_t :: "16 word"
  malloc_ok :: "16 word \<Rightarrow> bool"
  serial_readline :: "nat \<Rightarrow> char list \<Rightarrow> (string \<times> char list) option"
  string_read_field :: "string \<Rightarrow> nat \<Rightarrow> nat \<Rightarrow> string \<Rightarrow> string \<times> nat"
  string_get_int :: "string \<Rightarrow> 32 word"
  latitude_to_y :: "8 word \<Rightarrow> 32 word \<Rightarrow> 32 word"
  longitude_to_x :: "8 word \<Rightarrow> 32 word \<Rightarrow> 32 word"

text \<open>\<open>ST7735_BLUE\<close> of Adafruit\_ST7735.h.\<close>

definition ST7735_BLUE :: "16 word" where
  "ST7735_BLUE = 0x001F"

subsection \<open>is\_coord\_visible\<close>

text \<open>
  The two conversions are stored in \<open>uint16_t\<close> locals, which keeps their low 16 bits.
  The sums \<open>screen_map_x + display_window_width\<close> and
  \<open>screen_map_y + display_window_height\<close> are 16-bit unsigned sums and wrap. The
  function assigns to no global: the state comes back as it went in.
\<close>

definition is_coord_visible :: "platform \<Rightarrow> coord_t \<Rightarrow> world \<Rightarrow> 8 word \<times> world" where
  "is_coord_visible P point w =
     (let point_map_y = (ucast (latitude_to_y P (current_map_num w) (lat point)) :: 16 word);
          point_map_x = (ucast (longitude_to_x P (current_map_num w) (lon point)) :: 16 word);
          r = (if screen_map_x w < point_map_x \<and>
                  point_map_x < screen_map_x w + display_window_width w \<and>
                  screen_map_y w < point_map_y \<and>
                  point_map_y < screen_map_y w + display_window_height w
               then (1 :: 8 word) else 0)
      in (r, w))"

subsection \<open>draw\_path\<close>

text \<open>
  Reading \<open>path[i]\<close> beyond the block that was allocated has no defined value in C++.
  The model stops there and reports the index, together with the state reached.
\<close>

datatype fault = OutOfBounds nat

type_synonym outcome = "(fault \<times> world) + world"

definition path_at :: "coord_t list \<Rightarrow> nat \<Rightarrow> coord_t option" where
  "path_at path i = (if i < length path then Some (path ! i) else None)"

text \<open>The first loop, \<open>for (uint8_t i=0; i<length; i++)\<close>: its body is empty unless
  \<open>DEBUG_PATH\<close> is defined, and it is not. The comparison promotes the 8-bit counter
  to 16 bits; the increment wraps at 8 bits.\<close>

partial_function (option) draw_path_print_loop :: "16 word \<Rightarrow> 8 word \<Rightarrow> unit option" where
  "draw_path_print_loop len i =
     (if (ucast i :: 16 word) < len then draw_path_print_loop len (i + 1) else Some ())"

text \<open>The four screen coordinates and the prints and the \<open>drawLine\<close> call of the
  branch taken when both points are visible.\<close>

definition draw_path_line :: "platform \<Rightarrow> coord_t \<Rightarrow> coord_t \<Rightarrow> world \<Rightarrow> world" where
  "draw_path_line P a b w =
     (let start_x = longitude_to_x P (current_map_num w) (lon a) - ucast (screen_map_x w);
          start_y = latitude_to_y P (current_map_num w) (lat a) - ucast (screen_map_y w);
          stop_x = longitude_to_x P (current_map_num w) (lon b) - ucast (screen_map_x w);
          stop_y = latitude_to_y P (current_map_num w) (lat b) - ucast (screen_map_y w)
      in w\<lparr>serial_out := serial_out w @
              [Print_str ''Start Converted to: '', Print_long start_x, Print_str '', '',
               Print_long start_y, Print_str '' Stop Converted to: '', Print_long stop_x,
               Print_str '', '', Println_long stop_y],
            tft := tft w @
              [DrawLine (ucast start_x) (ucast start_y) (ucast stop_x) (ucast stop_y)
                 ST7735_BLUE]\<rparr>)"

text \<open>One pass of the second loop's body at counter \<open>i\<close>. \<open>&&\<close> evaluates its right
  operand, and so reads \<open>path[i+1]\<close>, only when \<open>path[i]\<close> is visible. \<open>i+1\<close> is
  computed in \<open>int\<close> and does not wrap at 255.\<close>

definition draw_path_body :: "platform \<Rightarrow> coord_t list \<Rightarrow> 8 word \<Rightarrow> world \<Rightarrow> outcome" where
  "draw_path_body P path i w =
     (case path_at path (unat i) of
        None \<Rightarrow> Inl (OutOfBounds (unat i), w)
      | Some a \<Rightarrow>
          (case is_coord_visible P a w of (va, w1) \<Rightarrow>
             if va = 0 then Inr w1
             else (case path_at path (unat i + 1) of
                     None \<Rightarrow> Inl (OutOfBounds (unat i + 1), w1)
                   | Some b \<Rightarrow>
                       (case is_coord_visible P b w1 of (vb, w2) \<Rightarrow>
                          if vb = 0 then Inr w2 else Inr (draw_path_line P a b w2)))))"

partial_function (option) draw_path_loop ::
  "platform \<Rightarrow> 16 word \<Rightarrow> coord_t list \<Rightarrow> 8 word \<Rightarrow> world \<Rightarrow> outcome option" where
  "draw_path_loop pf len path i w =
     (if (ucast i :: 16 word) < len then
        (case draw_path_body pf path i w of
           Inl e \<Rightarrow> Some (Inl e)
         | Inr w' \<Rightarrow> draw_path_loop pf len path (i + 1) w')
      else Some (Inr w))"

text \<open>\<open>draw_path(length, path)\<close>: \<open>None\<close> when the call never returns. Between the
  loops \<open>path[0]\<close> is read for \<open>first_in_path_x\<close> and \<open>first_in_path_y\<close>, which
  nothing uses afterwards.\<close>

definition draw_path :: "platform \<Rightarrow> 16 word \<Rightarrow> coord_t list \<Rightarrow> world \<Rightarrow> outcome option" where
  "draw_path P len path w =
     (let w1 = w\<lparr>serial_out := serial_out w @ [Println_str ''Path Received: '']\<rparr> in
      case draw_path_print_loop len 0 of
        None \<Rightarrow> None
      | Some _ \<Rightarrow>
          (case path_at path 0 of
             None \<Rightarrow> Some (Inl (OutOfBounds 0, w1))
           | Some first \<Rightarrow> draw_path_loop P len path 0 w1))"

text \<open>The state an outcome of \<open>draw_path\<close> ends in.\<close>

definition final_world :: "outcome \<Rightarrow> world" where
  "final_world out = (case out of Inl (e, w) \<Rightarrow> w | Inr w \<Rightarrow> w)"

text \<open>The viewport and map state that the renderer is given.\<close>

definition viewport ::
  "world \<Rightarrow> 8 word \<times> 16 word \<times> 16 word \<times> 16 word \<times> 16 word" where
  "viewport w =
     (current_map_num w, screen_map_x w, screen_map_y w,
      display_window_width w, display_window_height w)"

subsection \<open>The renderer as the specification words it\<close>

text \<open>A point is visible when the visibility test answers nonzero.\<close>

definition point_visible :: "platform \<Rightarrow> world \<Rightarrow> coord_t \<Rightarrow> bool" where
  "point_visible P w c = (fst (is_coord_visible P c w) \<noteq> 0)"

text \<open>The candidate segment \<open>i\<close> joins \<open>path[i]\<close> and \<open>path[i+1]\<close>; it is drawn when
  both are visible.\<close>

definition segment_visible :: "platform \<Rightarrow> world \<Rightarrow> coord_t list \<Rightarrow> nat \<Rightarrow> bool" where
  "segment_visible P w path i =
     (point_visible P w (path ! i) \<and> point_visible P w (path ! (i + 1)))"

text \<open>Screen-local coordinates: the map-pixel coordinates minus the viewport origin.\<close>

definition screen_local :: "platform \<Rightarrow> world \<Rightarrow> coord_t \<Rightarrow> 32 word \<times> 32 word" where
  "screen_local P w c =
     (longitude_to_x P (current_map_num w) (lon c) - ucast (screen_map_x w),
      latitude_to_y P (current_map_num w) (lat c) - ucast (screen_map_y w))"

text \<open>The one line of segment \<open>i\<close>, in the fixed colour, as the display receives it.\<close>

definition segment_line :: "platform \<Rightarrow> world \<Rightarrow> coord_t list \<Rightarrow> nat \<Rightarrow> draw_cmd" where
  "segment_line P w path i =
     (case (screen_local P w (path ! i), screen_local P w (path ! (i + 1))) of
        ((x0, y0), (x1, y1)) \<Rightarrow>
          DrawLine (ucast x0) (ucast y0) (ucast x1) (ucast y1) ST7735_BLUE)"

text \<open>What one pass of the loop does to the state when both of its reads are inside
  the array.\<close>

definition draw_path_step :: "platform \<Rightarrow> coord_t list \<Rightarrow> world \<Rightarrow> nat \<Rightarrow> world" where
  "draw_path_step P path w i =
     (if segment_visible P w path i
      then draw_path_line P (path ! i) (path ! (i + 1)) w else w)"

subsection \<open>read\_path\<close>

text \<open>
  The population loop, \<open>while (tmp_length > 0)\<close>, with its 8-bit counter. Each pass
  reads a line, takes the first field as the latitude and the field after it as the
  longitude, and stores them in the next slot. A pass whose line never arrives does not
  return.
\<close>

function read_path_loop ::
  "platform \<Rightarrow> 8 word \<Rightarrow> coord_t list \<Rightarrow> world \<Rightarrow> (coord_t list \<times> world) option" where
  "read_path_loop P tmp_length tmp_path w =
     (if 0 < tmp_length then
        (case serial_readline P 40 (serial_in w) of
           None \<Rightarrow> None
         | Some (line, rest) \<Rightarrow>
             (case string_read_field P line 0 20 '' '' of (field, field_index) \<Rightarrow>
                (case string_read_field P line field_index 20 '' '' of
                   (field', field_index') \<Rightarrow>
                     read_path_loop P (tmp_length - 1)
                       (tmp_path @ [\<lparr>lat = string_get_int P field,
                                     lon = string_get_int P field'\<rparr>])
                       (w\<lparr>serial_in := rest\<rparr>))))
      else Some (tmp_path, w))"
  by pat_completeness auto
termination
  by (relation "measure (\<lambda>(P, tmp_length, tmp_path, w). unat tmp_length)")
     (auto simp: unat_minus_one unat_gt_0 word_greater_zero_iff)

declare read_path_loop.simps [simp del]

text \<open>The ceiling on the count, \<open>(AVAIL_MEM - 256) / sizeof(coord_t)\<close>: the divisor is a
  \<open>size_t\<close>, so the difference is taken as 16-bit unsigned and the quotient is the
  \<open>uint16_t\<close> it is stored in.\<close>

definition max_path_size :: "platform \<Rightarrow> 16 word" where
  "max_path_size P = (AVAIL_MEM P - 256) div sizeof_coord_t P"

text \<open>
  \<open>read_path(length_p, path_p)\<close>: the value returned, \<open>*length_p\<close>, \<open>*path_p\<close>
  (\<open>None\<close> for the null pointer) and the state; \<open>None\<close> when the call never returns.
  The busy wait on \<open>Serial.available()\<close> never ends when no byte arrives.
  The range check compares in 32 bits, signed. \<open>tmp_length\<close> is a \<open>uint8_t\<close> and keeps the
  low 8 bits of the count.
\<close>

definition read_path ::
  "platform \<Rightarrow> world \<Rightarrow> (8 word \<times> 16 word \<times> coord_t list option \<times> world) option" where
  "read_path P w0 =
     (let w1 = w0\<lparr>path_errno := 0\<rparr> in
      if serial_in w1 = [] then None
      else
        case serial_readline P 40 (serial_in w1) of
          None \<Rightarrow> None
        | Some (line, rest) \<Rightarrow>
            let w2 = w1\<lparr>serial_in := rest\<rparr>;
                field_value = string_get_int P (fst (string_read_field P line 0 20 '' ''))
            in if field_value <s 0 \<or> (ucast (max_path_size P) :: 32 word) <s field_value
               then Some (0, 0, None, w2\<lparr>path_errno := 1\<rparr>)
               else
                 let tmp_length = (ucast field_value :: 8 word);
                     length_p = (ucast tmp_length :: 16 word);
                     n = (ucast tmp_length :: 16 word) * sizeof_coord_t P;
                     w3 = w2\<lparr>mallocs := mallocs w2 @ [n]\<rparr>
                 in if \<not> malloc_ok P n
                    then Some (0, length_p, None, w3\<lparr>path_errno := 2\<rparr>)
                    else (case read_path_loop P tmp_length [] w3 of
                            None \<Rightarrow> None
                          | Some (tmp_path, w4) \<Rightarrow> Some (1, length_p, Some tmp_path, w4)))"

subsection \<open>The ingestor as the specification words it\<close>

text \<open>The declared count \<open>N\<close>: the first field of the count line, parsed as a signed
  integer.\<close>

definition declared_count :: "platform \<Rightarrow> string \<Rightarrow> int" where
  "declared_count P line = sint (string_get_int P (fst (string_read_field P line 0 20 '' '')))"

text \<open>A coordinate line: the first field is the latitude, the second the longitude.\<close>

definition parse_coord :: "platform \<Rightarrow> string \<Rightarrow> coord_t" where
  "parse_coord P line =
     \<lparr>lat = string_get_int P (fst (string_read_field P line 0 20 '' '')),
      lon = string_get_int P
              (fst (string_read_field P line (snd (string_read_field P line 0 20 '' '')) 20
                      '' ''))\<rparr>"

text \<open>The next \<open>n\<close> lines of the input and what is left after them, when they all
  arrive.\<close>

primrec read_lines :: "platform \<Rightarrow> nat \<Rightarrow> char list \<Rightarrow> (string list \<times> char list) option" where
  "read_lines P 0 inp = Some ([], inp)"
| "read_lines P (Suc n) inp =
     (case serial_readline P 40 inp of
        None \<Rightarrow> None
      | Some (line, rest) \<Rightarrow>
          (case read_lines P n rest of
             None \<Rightarrow> None
           | Some (ls, rest') \<Rightarrow> Some (line # ls, rest')))"

text \<open>The map-pixel position of a point: what the conversions of the map layer return for
  its longitude and latitude, as the signed 32-bit numbers they are.\<close>

definition pixel_x :: "platform \<Rightarrow> world \<Rightarrow> coord_t \<Rightarrow> int" where
  "pixel_x P w c = sint (longitude_to_x P (current_map_num w) (lon c))"

definition pixel_y :: "platform \<Rightarrow> world \<Rightarrow> coord_t \<Rightarrow> int" where
  "pixel_y P w c = sint (latitude_to_y P (current_map_num w) (lat c))"

subsection \<open>A line transport and a bench configuration\<close>

text \<open>
  Modelled from the spec: line reading of serial\_handling.h, which is not part of path.cpp.
  The specification gives the interface of the transport: read a line of text up to
  \<open>max_len\<close> bytes, extract a delimited field from a start index and return the index
  after it, parse a field as a signed decimal integer. Here a line ends at a line feed; a
  line that never ends blocks the reader; bytes of an over-long line beyond
  \<open>max_len - 1\<close> are dropped.
\<close>

definition spec_read_line :: "nat \<Rightarrow> char list \<Rightarrow> (string \<times> char list) option" where
  "spec_read_line max_len inp =
     (if CHR 0x0A \<in> set inp
      then Some (take (max_len - 1) (takeWhile (\<lambda>c. c \<noteq> CHR 0x0A) inp),
                 tl (dropWhile (\<lambda>c. c \<noteq> CHR 0x0A) inp))
      else None)"

text \<open>Modelled from the spec: field extraction of serial\_handling.h. Delimiters before the
  field are skipped; the field runs to the next delimiter or the end of the line and is
  cut to \<open>max_len - 1\<close> bytes; the index returned is the one just after the field.\<close>

definition spec_extract_field :: "string \<Rightarrow> nat \<Rightarrow> nat \<Rightarrow> string \<Rightarrow> string \<times> nat" where
  "spec_extract_field line start max_len delims =
     (let skipped = dropWhile (\<lambda>c. c \<in> set delims) (drop start line);
          field = takeWhile (\<lambda>c. c \<notin> set delims) skipped
      in (take (max_len - 1) field, length line - length skipped + length field))"

text \<open>Modelled from the spec: integer parsing of serial\_handling.h, a decimal number with
  an optional minus sign, stored in an \<open>int32_t\<close>. No field is rejected: a field that is
  not a number still yields a value.\<close>

definition spec_digits :: "string \<Rightarrow> int" where
  "spec_digits ds = foldl (\<lambda>a c. 10 * a + (int (of_char c) - 48)) 0 ds"

definition spec_parse_int :: "string \<Rightarrow> 32 word" where
  "spec_parse_int s =
     (if s \<noteq> [] \<and> hd s = CHR ''-'' then - of_int (spec_digits (tl s))
      else of_int (spec_digits s))"

text \<open>
  A board to evaluate the model on: 4096 bytes free, coordinates of two \<open>int32_t\<close>, an
  allocator that grants every request, the line transport above, and a map on which a
  coordinate is its own pixel position. The display window is the 128 by 160 screen at
  the map's origin.
\<close>

definition bench_platform :: platform where
  "bench_platform =
     \<lparr>AVAIL_MEM = 4096, sizeof_coord_t = 8, malloc_ok = (\<lambda>n. True),
      serial_readline = spec_read_line, string_read_field = spec_extract_field,
      string_get_int = spec_parse_int,
      latitude_to_y = (\<lambda>map_num la. la), longitude_to_x = (\<lambda>map_num lo. lo)\<rparr>"

definition bench_world :: world where
  "bench_world =
     \<lparr>path_errno = 0, current_map_num = 2, screen_map_x = 0, screen_map_y = 0,
      display_window_width = 128, display_window_height = 160,
      serial_in = [], serial_out = [], tft = [], mallocs = []\<rparr>"

section \<open>Facts about the conversions between widths\<close>

text \<open>The comparisons and conversions of the source, read as statements about numbers.\<close>

lemma unat_u8_bound: "unat (i :: 8 word) \<le> 255"
  using unsigned_less [of i, where 'a = nat] by simp

lemma unat_ucast_u8_u16: "unat (ucast (i :: 8 word) :: 16 word) = unat i"
proof -
  have "unat i < 2 ^ 16" using unat_u8_bound [of i] by simp
  then show ?thesis by (simp add: unsigned_ucast_eq take_bit_nat_eq_self)
qed

lemma ucast_less_iff: "((ucast (i :: 8 word) :: 16 word) < len) = (unat i < unat len)"
  by (simp add: word_less_nat_alt unat_ucast_u8_u16)

lemma unat_u8_succ: "unat (i :: 8 word) < 255 \<Longrightarrow> unat (i + 1) = unat i + 1"
  using unat_add_lem [of i 1] by simp

lemma unat_of_nat_u8: "j \<le> 255 \<Longrightarrow> unat (of_nat j :: 8 word) = j"
  by (simp add: unat_of_nat)

lemma sint_ucast_u16_u32: "sint (ucast (m :: 16 word) :: 32 word) = uint m"
proof -
  have "uint m < 2 ^ 16" using unsigned_less [of m, where 'a = int] by simp
  then have "uint m < 2 ^ 31" by simp
  moreover have "- (2 ^ 31) \<le> uint m" by (rule order_trans [of _ 0]) simp_all
  ultimately show ?thesis
    by (simp add: signed_ucast_eq signed_take_bit_int_eq_self)
qed

lemma range_check_iff:
  "(fv <s 0 \<or> (ucast (m :: 16 word) :: 32 word) <s fv) = (sint fv < 0 \<or> uint m < sint fv)"
  by (simp add: word_sless_alt sint_ucast_u16_u32)

lemma uint_count16:
  assumes "0 \<le> (N::int)" "N \<le> 255"
  shows "uint (of_int N :: 16 word) = N"
  using assms by (simp add: uint_word_of_int)

lemma sint_nonneg_uint: 
  assumes "0 \<le> sint (fv :: 32 word)" shows "uint fv = sint fv"
proof -
  have "sint fv < 2 ^ 32" using sint_lt [of fv] by simp
  with assms show ?thesis by (simp add: uint_sint take_bit_int_eq_self)
qed

lemma count_fits8: 
  assumes "0 \<le> sint (fv :: 32 word)" "sint fv \<le> 255"
  shows "uint (ucast fv :: 8 word) = sint fv"
proof -
  have "uint (ucast fv :: 8 word) = take_bit 8 (uint fv)"
    by (simp add: unsigned_ucast_eq)
  also have "\<dots> = sint fv" using assms by (simp add: sint_nonneg_uint take_bit_int_eq_self)
  finally show ?thesis .
qed

lemma uint_ucast_u8_u16: "uint (ucast (x :: 8 word) :: 16 word) = uint x"
  by (simp add: uint_up_ucast is_up)

lemma count_fits16:
  assumes "0 \<le> sint (fv :: 32 word)" "sint fv \<le> 255"
  shows "uint (ucast (ucast fv :: 8 word) :: 16 word) = sint fv"
proof -
  have "uint (ucast (ucast fv :: 8 word) :: 16 word) = uint (ucast fv :: 8 word)"
    by (rule uint_ucast_u8_u16)
  then show ?thesis using count_fits8 [OF assms] by (simp only:)
qed

lemma count_unat8:
  assumes "0 \<le> sint (fv :: 32 word)" "sint fv \<le> 255"
  shows "unat (ucast fv :: 8 word) = nat (sint fv)"
  using count_fits8 [OF assms] by (simp add: unat_eq_nat_uint)

lemma count_stored:
  assumes "sint (fv :: 32 word) = N" and "0 \<le> N" and "N \<le> 255"
  shows "(ucast (ucast fv :: 8 word) :: 16 word) = of_int N"
    and "unat (ucast fv :: 8 word) = nat N"
proof -
  have fv: "0 \<le> sint fv" "sint fv \<le> 255" using assms by simp_all
  have "uint (ucast (ucast fv :: 8 word) :: 16 word) = uint (of_int N :: 16 word)"
    using count_fits16 [OF fv] assms by (simp only: uint_count16)
  then show "(ucast (ucast fv :: 8 word) :: 16 word) = of_int N" by (rule word_uint_eqI)
  show "unat (ucast fv :: 8 word) = nat N"
    using count_unat8 [OF fv] assms(1) by (simp only:)
qed

section \<open>The renderer\<close>

subsection \<open>The visibility test\<close>

text \<open>The test reads the state and answers 0 or 1; its answer depends on the state through the viewport alone.\<close>

lemma is_coord_visible_state: "snd (is_coord_visible P c w) = w"
  by (simp add: is_coord_visible_def Let_def)

lemma is_coord_visible_pair:
  "is_coord_visible P c w = (if point_visible P w c then 1 else 0, w)"
  by (simp add: is_coord_visible_def point_visible_def Let_def)

text \<open>Where the pixel position fits the 16-bit locals and the far edges of the window do not
  pass 65535, the test is the strict containment in the window, over the integers.\<close>

lemma uint_local_pixel:
  assumes "0 \<le> sint (x :: 32 word)" and "sint x < 2 ^ 16"
  shows "uint (ucast x :: 16 word) = sint x"
proof -
  have "uint (ucast x :: 16 word) = take_bit 16 (uint x)"
    by (simp add: unsigned_ucast_eq)
  also have "\<dots> = sint x"
    using assms by (simp add: sint_nonneg_uint take_bit_int_eq_self)
  finally show ?thesis .
qed

lemma uint_far_edge:
  assumes "uint (a :: 16 word) + uint b < 2 ^ 16"
  shows "uint (a + b) = uint a + uint b"
  using assms by (simp add: uint_word_ariths take_bit_int_eq_self)

lemma is_coord_visible_in_range:
  assumes "0 \<le> pixel_x P w c" and "pixel_x P w c < 2 ^ 16"
    and "0 \<le> pixel_y P w c" and "pixel_y P w c < 2 ^ 16"
    and "uint (screen_map_x w) + uint (display_window_width w) < 2 ^ 16"
    and "uint (screen_map_y w) + uint (display_window_height w) < 2 ^ 16"
  shows "(fst (is_coord_visible P c w) = 1) =
     (uint (screen_map_x w) < pixel_x P w c \<and>
      pixel_x P w c < uint (screen_map_x w) + uint (display_window_width w) \<and>
      uint (screen_map_y w) < pixel_y P w c \<and>
      pixel_y P w c < uint (screen_map_y w) + uint (display_window_height w))"
  using assms
  by (simp add: is_coord_visible_def Let_def pixel_x_def pixel_y_def word_less_def
      uint_local_pixel uint_far_edge)

lemma point_visible_viewport:
  "viewport w' = viewport w \<Longrightarrow> point_visible P w' c = point_visible P w c"
  by (simp add: viewport_def point_visible_def is_coord_visible_def Let_def)

lemma segment_visible_viewport:
  "viewport w' = viewport w \<Longrightarrow> segment_visible P w' path i = segment_visible P w path i"
  by (simp add: segment_visible_def point_visible_viewport [of w' w])

lemma segment_line_viewport:
  "viewport w' = viewport w \<Longrightarrow> segment_line P w' path i = segment_line P w path i"
  by (simp add: viewport_def segment_line_def screen_local_def)

lemma received_viewport: "viewport (w\<lparr>serial_out := so\<rparr>) = viewport w"
  by (simp add: viewport_def)

lemma final_world_simps:
  "final_world (Inl (e, w)) = w" "final_world (Inr w) = w"
  by (simp_all add: final_world_def)

subsection \<open>The counting loop\<close>

text \<open>The first loop ends exactly when the length fits the 8-bit counter.\<close>

lemma print_loop_diverges:
  assumes "256 \<le> unat len"
  shows "draw_path_print_loop len i = None"
proof (rule ccontr)
  assume "draw_path_print_loop len i \<noteq> None"
  then obtain y where y: "draw_path_print_loop len i = Some y" by auto
  have "unat len < 256"
  proof (rule draw_path_print_loop.raw_induct [where P = "\<lambda>len i y. unat len < 256", OF _ y])
    fix f len' i' y'
    assume IH: "\<And>len i y. f len i = Some y \<Longrightarrow> unat len < 256"
      and body: "(if (ucast (i' :: 8 word) :: 16 word) < len' then f len' (i' + 1) else Some ()) = Some y'"
    show "unat len' < 256"
    proof (cases "unat i' < unat len'")
      case True
      with body IH show ?thesis by (simp add: ucast_less_iff)
    next
      case False
      then show ?thesis using unat_u8_bound [of i'] by simp
    qed
  qed
  with assms show False by simp
qed

lemma print_loop_from:
  "unat len \<le> 255 \<Longrightarrow> unat i \<le> unat len \<Longrightarrow> draw_path_print_loop len i = Some ()"
proof (induction "unat len - unat i" arbitrary: i)
  case 0
  then show ?case by (subst draw_path_print_loop.simps) (simp add: ucast_less_iff)
next
  case (Suc n)
  then have lt: "unat i < unat len" by simp
  then have "unat (i + 1) = unat i + 1" using Suc.prems by (intro unat_u8_succ) simp
  with Suc lt have "draw_path_print_loop len (i + 1) = Some ()" by simp
  with lt show ?case by (subst draw_path_print_loop.simps) (simp add: ucast_less_iff)
qed

lemma print_loop_returns: "unat len \<le> 255 \<Longrightarrow> draw_path_print_loop len 0 = Some ()"
  by (rule print_loop_from) simp_all

subsection \<open>One pass of the segment loop\<close>

text \<open>The four ways a pass can go, and what a pass with both reads inside the array does to the display.\<close>

lemma body_in_bounds:
  "unat i + 1 < length path \<Longrightarrow>
   draw_path_body P path i w = Inr (draw_path_step P path w (unat i))"
  by (simp add: draw_path_body_def draw_path_step_def segment_visible_def path_at_def
      is_coord_visible_pair)

lemma body_last_visible:
  "unat i < length path \<Longrightarrow> \<not> unat i + 1 < length path \<Longrightarrow>
   point_visible P w (path ! unat i) \<Longrightarrow>
   draw_path_body P path i w = Inl (OutOfBounds (unat i + 1), w)"
  by (simp add: draw_path_body_def path_at_def is_coord_visible_pair)

lemma body_hidden:
  "unat i < length path \<Longrightarrow> \<not> point_visible P w (path ! unat i) \<Longrightarrow>
   draw_path_body P path i w = Inr w"
  by (simp add: draw_path_body_def path_at_def is_coord_visible_pair)

lemma body_outside:
  "\<not> unat i < length path \<Longrightarrow> draw_path_body P path i w = Inl (OutOfBounds (unat i), w)"
  by (simp add: draw_path_body_def path_at_def)

lemma draw_path_line_viewport: "viewport (draw_path_line P a b w) = viewport w"
  by (simp add: draw_path_line_def viewport_def Let_def)

lemma draw_path_line_tft:
  "tft (draw_path_line P (path ! i) (path ! (i + 1)) w) = tft w @ [segment_line P w path i]"
  by (simp add: draw_path_line_def segment_line_def screen_local_def Let_def)

lemma step_viewport: "viewport (draw_path_step P path w i) = viewport w"
  by (simp add: draw_path_step_def draw_path_line_viewport)

lemma step_tft:
  "tft (draw_path_step P path w i) =
   tft w @ (if segment_visible P w path i then [segment_line P w path i] else [])"
  using draw_path_line_tft [of P path i w] by (simp add: draw_path_step_def)

lemma steps_viewport: "viewport (foldl (draw_path_step P path) w ns) = viewport w"
  by (induction ns arbitrary: w) (simp_all add: step_viewport)

lemma steps_tft:
  "viewport w' = viewport w \<Longrightarrow>
   tft (foldl (draw_path_step P path) w' ns) =
   tft w' @ map (segment_line P w path) (filter (segment_visible P w path) ns)"
proof (induction ns arbitrary: w')
  case Nil
  then show ?case by simp
next
  case (Cons n ns)
  have "viewport (draw_path_step P path w' n) = viewport w"
    using Cons.prems by (simp add: step_viewport)
  from Cons.IH [OF this] show ?case
    using Cons.prems
    by (simp add: step_tft segment_visible_viewport [of w' w] segment_line_viewport [of w' w])
qed

subsection \<open>The whole call\<close>

text \<open>The passes whose reads stay inside the array are a fold over their indices. After them the call returns, or reads one element too far.\<close>

lemma loop_exit:
  "unat len \<le> unat i \<Longrightarrow> draw_path_loop P len path i w = Some (Inr w)"
  by (subst draw_path_loop.simps) (simp add: ucast_less_iff)

lemma loop_prefix:
  "unat i \<le> j \<Longrightarrow> j \<le> unat len \<Longrightarrow> j \<le> 255 \<Longrightarrow> j < length path \<Longrightarrow>
   draw_path_loop P len path i w =
   draw_path_loop P len path (of_nat j) (foldl (draw_path_step P path) w [unat i..<j])"
proof (induction "j - unat i" arbitrary: i w)
  case 0
  then have "unat i = j" by simp
  then have "of_nat j = i" by auto
  with 0 show ?case by simp
next
  case (Suc n)
  then have lt: "unat i < j" by simp
  with Suc.prems have suc: "unat (i + 1) = unat i + 1" by (intro unat_u8_succ) simp
  have body: "draw_path_body P path i w = Inr (draw_path_step P path w (unat i))"
    using lt Suc.prems by (intro body_in_bounds) simp
  have "draw_path_loop P len path i w =
        draw_path_loop P len path (i + 1) (draw_path_step P path w (unat i))"
    using lt Suc.prems by (subst draw_path_loop.simps) (simp add: ucast_less_iff body)
  also have "\<dots> = draw_path_loop P len path (of_nat j)
      (foldl (draw_path_step P path) (draw_path_step P path w (unat i)) [unat (i + 1)..<j])"
    using Suc.hyps Suc.prems lt suc by (intro Suc.hyps(1)) simp_all
  also have "foldl (draw_path_step P path) (draw_path_step P path w (unat i)) [unat (i + 1)..<j]
      = foldl (draw_path_step P path) w [unat i..<j]"
    using lt by (simp add: suc upt_conv_Cons)
  finally show ?case .
qed

lemma draw_path_outcome:
  fixes w :: world and P :: platform and path :: "coord_t list" and len :: "16 word"
  assumes len: "unat len \<le> 255"
  defines "w1 \<equiv> w\<lparr>serial_out := serial_out w @ [Println_str ''Path Received: '']\<rparr>"
  defines "wn \<equiv> foldl (draw_path_step P path) w1 [0..<min (unat len) (length path - 1)]"
  shows "draw_path P len path w = Some
     (if path = [] then Inl (OutOfBounds 0, w1)
      else if unat len < length path then Inr wn
      else if point_visible P w (path ! (length path - 1)) then Inl (OutOfBounds (length path), wn)
      else if unat len = length path then Inr wn
      else Inl (OutOfBounds (length path), wn))"
proof (cases "path = []")
  case True
  then show ?thesis
    using len by (simp add: draw_path_def print_loop_returns path_at_def w1_def)
next
  case ne: False
  have start: "draw_path P len path w = draw_path_loop P len path 0 w1"
    using len ne by (simp add: draw_path_def print_loop_returns path_at_def w1_def Let_def)
  have vp: "viewport wn = viewport w"
    by (simp add: wn_def steps_viewport) (simp add: w1_def viewport_def)
  show ?thesis
  proof (cases "unat len < length path")
    case True
    then have "min (unat len) (length path - 1) = unat len" by simp
    then have "draw_path_loop P len path 0 w1 = draw_path_loop P len path (of_nat (unat len)) wn"
      using loop_prefix [of 0 "unat len" len path P w1] len True by (simp add: wn_def)
    also have "\<dots> = Some (Inr wn)"
      by (intro loop_exit) (simp only: unat_of_nat_u8 [OF len] order_refl)
    finally show ?thesis using ne True start by simp
  next
    case False
    define L where "L = length path - 1"
    have L: "length path = L + 1" "L < unat len" "L \<le> 255"
      using ne False len unfolding L_def by (cases path; simp)+
    then have m: "min (unat len) (length path - 1) = L" by simp
    define i :: "8 word" where "i = of_nat L"
    have i: "unat i = L" using L by (simp add: i_def unat_of_nat_u8)
    have pre: "draw_path_loop P len path 0 w1 = draw_path_loop P len path i wn"
      using loop_prefix [of 0 L len path P w1] L by (simp add: wn_def m i_def)
    show ?thesis
    proof (cases "point_visible P w (path ! L)")
      case True
      then have "draw_path_body P path i wn = Inl (OutOfBounds (L + 1), wn)"
        using body_last_visible [of i path P wn] L i point_visible_viewport [OF vp] by simp
      then have "draw_path_loop P len path i wn = Some (Inl (OutOfBounds (L + 1), wn))"
        using L i by (subst draw_path_loop.simps) (simp add: ucast_less_iff)
      then show ?thesis using ne False True start pre L by simp
    next
      case hidden: False
      then have "draw_path_body P path i wn = Inr wn"
        using body_hidden [of i path P wn] L i point_visible_viewport [OF vp] by simp
      then have nxt: "draw_path_loop P len path i wn = draw_path_loop P len path (i + 1) wn"
        using L i by (subst draw_path_loop.simps) (simp add: ucast_less_iff)
      have i1: "unat (i + 1) = L + 1" using unat_u8_succ [of i] i L len by simp
      show ?thesis
      proof (cases "unat len = length path")
        case True
        then have "draw_path_loop P len path (i + 1) wn = Some (Inr wn)"
          using i1 L by (intro loop_exit) simp
        then show ?thesis using ne False hidden True start pre nxt L by simp
      next
        case longer: False
        then have lt: "L + 1 < unat len" using L False by simp
        have "draw_path_body P path (i + 1) wn = Inl (OutOfBounds (L + 1), wn)"
          using body_outside [of "i + 1" path P wn] i1 L by simp
        then have "draw_path_loop P len path (i + 1) wn = Some (Inl (OutOfBounds (L + 1), wn))"
          using lt i1 by (subst draw_path_loop.simps) (simp add: ucast_less_iff)
        then show ?thesis using ne False hidden longer start pre nxt L by simp
      qed
    qed
  qed
qed

lemma draw_path_loop_no_exit:
  assumes big: "256 \<le> unat len" and ret: "draw_path_loop P len path i w = Some out"
  shows "\<exists>e. out = Inl e"
proof -
  have "256 \<le> unat len \<longrightarrow> (\<exists>e. out = Inl e)"
  proof (rule draw_path_loop.raw_induct
      [where P = "\<lambda>pf len path i w out. 256 \<le> unat len \<longrightarrow> (\<exists>e. out = Inl e)", OF _ ret])
    fix f P' len' path' i' w' out'
    assume IH: "\<And>P len path i w out. f P len path i w = Some out \<Longrightarrow>
                  256 \<le> unat len \<longrightarrow> (\<exists>e. out = Inl e)"
      and body: "(if (ucast (i' :: 8 word) :: 16 word) < len' then
                    (case draw_path_body P' path' i' w' of
                       Inl e \<Rightarrow> Some (Inl e)
                     | Inr w'' \<Rightarrow> f P' len' path' (i' + 1) w'')
                  else Some (Inr w')) = Some out'"
    show "256 \<le> unat len' \<longrightarrow> (\<exists>e. out' = Inl e)"
    proof
      assume big': "256 \<le> unat len'"
      then have "unat i' < unat len'" using unat_u8_bound [of i'] by simp
      with body have b: "(case draw_path_body P' path' i' w' of
                       Inl e \<Rightarrow> Some (Inl e)
                     | Inr w'' \<Rightarrow> f P' len' path' (i' + 1) w'') = Some out'"
        by (simp add: ucast_less_iff)
      show "\<exists>e. out' = Inl e"
      proof (cases "draw_path_body P' path' i' w'")
        case (Inl e)
        with b show ?thesis by auto
      next
        case (Inr w'')
        with b IH big' show ?thesis by auto
      qed
    qed
  qed
  with big show ?thesis by simp
qed

section \<open>The ingestor\<close>

text \<open>The population loop reads as many lines as its counter says. The two ways past the range check follow.\<close>

lemma read_lines_length:
  "read_lines P n inp = Some (ls, rest) \<Longrightarrow> length ls = n"
  by (induction n arbitrary: inp ls) (auto split: option.splits)

lemma read_lines_numeral:
  "read_lines P (numeral k) inp =
     (case serial_readline P 40 inp of
        None \<Rightarrow> None
      | Some (line, rest) \<Rightarrow>
          (case read_lines P (pred_numeral k) rest of
             None \<Rightarrow> None
           | Some (ls, rest') \<Rightarrow> Some (line # ls, rest')))"
  by (simp add: numeral_eq_Suc)

lemma read_path_loop_lines:
  "read_lines P n (serial_in w) = Some (ls, rest) \<Longrightarrow> unat t = n \<Longrightarrow>
   read_path_loop P t acc w = Some (acc @ map (parse_coord P) ls, w\<lparr>serial_in := rest\<rparr>)"
proof (induction n arbitrary: t acc w ls)
  case 0
  then have "t = 0" by (simp add: unat_eq_0)
  with 0 show ?case by (subst read_path_loop.simps) auto
next
  case (Suc n)
  from Suc.prems(2) have pos: "0 < t" by (simp add: word_greater_zero_iff unat_gt_0 [symmetric])
  then have t1: "unat (t - 1) = n" using Suc.prems(2) by (simp add: unat_minus_one)
  from Suc.prems(1) obtain line r ls' where
    rl: "serial_readline P 40 (serial_in w) = Some (line, r)" and
    rest: "read_lines P n r = Some (ls', rest)" and ls: "ls = line # ls'"
    by (auto split: option.splits)
  have "read_path_loop P (t - 1) (acc @ [parse_coord P line]) (w\<lparr>serial_in := r\<rparr>) =
        Some ((acc @ [parse_coord P line]) @ map (parse_coord P) ls', w\<lparr>serial_in := rest\<rparr>)"
    using Suc.IH [of "w\<lparr>serial_in := r\<rparr>" ls' "t - 1" "acc @ [parse_coord P line]"] rest t1
    by simp
  then show ?case
    using pos rl ls
    by (subst read_path_loop.simps) (simp add: parse_coord_def case_prod_beta)
qed

lemma read_path_refused:
  assumes "serial_in w \<noteq> []"
    and "serial_readline P 40 (serial_in w) = Some (line, rest)"
    and "0 \<le> declared_count P line" and "declared_count P line \<le> uint (max_path_size P)"
    and "tmp_length = (ucast (string_get_int P (fst (string_read_field P line 0 20 '' ''))) :: 8 word)"
    and "\<not> malloc_ok P (ucast tmp_length * sizeof_coord_t P)"
  shows "read_path P w = Some (0, ucast tmp_length, None,
           w\<lparr>path_errno := 2, serial_in := rest,
             mallocs := mallocs w @ [ucast tmp_length * sizeof_coord_t P]\<rparr>)"
  using assms by (simp add: read_path_def Let_def range_check_iff declared_count_def)

lemma read_path_granted:
  assumes "serial_in w \<noteq> []"
    and "serial_readline P 40 (serial_in w) = Some (line, rest)"
    and "0 \<le> declared_count P line" and "declared_count P line \<le> uint (max_path_size P)"
    and "tmp_length = (ucast (string_get_int P (fst (string_read_field P line 0 20 '' ''))) :: 8 word)"
    and "malloc_ok P (ucast tmp_length * sizeof_coord_t P)"
    and "read_lines P (unat tmp_length) rest = Some (ls, rest')"
  shows "read_path P w = Some (1, ucast tmp_length, Some (map (parse_coord P) ls),
           w\<lparr>path_errno := 0, serial_in := rest',
             mallocs := mallocs w @ [ucast tmp_length * sizeof_coord_t P]\<rparr>)"
proof -
  let ?w3 = "w\<lparr>path_errno := 0, serial_in := rest,
               mallocs := mallocs w @ [ucast tmp_length * sizeof_coord_t P]\<rparr>"
  have "read_path_loop P tmp_length [] ?w3 =
        Some ([] @ map (parse_coord P) ls, ?w3\<lparr>serial_in := rest'\<rparr>)"
    using assms(7) by (intro read_path_loop_lines [where n = "unat tmp_length"]) simp_all
  then show ?thesis
    using assms(1-6) by (simp add: read_path_def Let_def range_check_iff declared_count_def)
qed

lemmas bench_defs =
  bench_platform_def bench_world_def spec_read_line_def spec_extract_field_def
  spec_parse_int_def spec_digits_def declared_count_def max_path_size_def parse_coord_def
  read_lines_numeral

section \<open>Claims about read\_path\<close>

text \<open>
  C1 (as amended). For every declared length \<open>N\<close> with \<open>0 \<le> N \<le> max_path_size\<close> and
  \<open>N \<le> 255\<close>, when the \<open>N\<close> coordinate lines after the count line all arrive and the
  allocator grants the block for \<open>N\<close> coordinates, \<open>read_path\<close> returns 1, sets the
  output length to \<open>N\<close>, hands back the array of the \<open>N\<close> parsed coordinates in the
  order of the lines, and leaves \<open>path_errno\<close> at 0. The state shows what was consumed:
  the count line and the \<open>N\<close> lines, and one allocation request.
\<close>

theorem read_path_success:
  assumes avail: "serial_in w \<noteq> []"
    and count: "serial_readline P 40 (serial_in w) = Some (line, rest)"
    and N: "N = declared_count P line"
    and range: "0 \<le> N" "N \<le> uint (max_path_size P)" "N \<le> 255"
    and grant: "malloc_ok P (of_int N * sizeof_coord_t P)"
    and lines: "read_lines P (nat N) rest = Some (ls, rest')"
  shows "read_path P w =
           Some (1, of_int N, Some (map (parse_coord P) ls),
                 w\<lparr>path_errno := 0, serial_in := rest',
                   mallocs := mallocs w @ [of_int N * sizeof_coord_t P]\<rparr>) \<and>
         uint (of_int N :: 16 word) = N \<and> int (length ls) = N"
proof -
  define tmp_length :: "8 word"
    where "tmp_length = ucast (string_get_int P (fst (string_read_field P line 0 20 '' '')))"
  have fv: "sint (string_get_int P (fst (string_read_field P line 0 20 '' ''))) = N"
    using N by (simp add: declared_count_def)
  have len: "(ucast tmp_length :: 16 word) = of_int N"
    unfolding tmp_length_def by (rule count_stored(1) [OF fv range(1,3)])
  have n: "unat tmp_length = nat N"
    unfolding tmp_length_def by (rule count_stored(2) [OF fv range(1,3)])
  have test: "0 \<le> declared_count P line" "declared_count P line \<le> uint (max_path_size P)"
    using range N by simp_all
  have ok: "malloc_ok P (ucast tmp_length * sizeof_coord_t P)"
    using grant by (simp only: len)
  have ls: "read_lines P (unat tmp_length) rest = Some (ls, rest')"
    using lines by (simp only: n)
  have "read_path P w = Some (1, ucast tmp_length, Some (map (parse_coord P) ls),
           w\<lparr>path_errno := 0, serial_in := rest',
             mallocs := mallocs w @ [ucast tmp_length * sizeof_coord_t P]\<rparr>)"
    by (rule read_path_granted [OF avail count test tmp_length_def ok ls])
  then show ?thesis
    using read_lines_length [OF lines] range by (simp add: len uint_count16)
qed

text \<open>The stream \<open>2, 10 20, 30 40\<close> on the bench board: two coordinates, 16 bytes
  requested, nothing left on the line.\<close>

theorem read_path_success_witness:
  "declared_count bench_platform ''2'' = 2 \<and>
   uint (max_path_size bench_platform) = 480 \<and>
   read_path bench_platform (bench_world\<lparr>serial_in := ''2\<newline>10 20\<newline>30 40\<newline>''\<rparr>) =
     Some (1, 2, Some [\<lparr>lat = 10, lon = 20\<rparr>, \<lparr>lat = 30, lon = 40\<rparr>],
           bench_world\<lparr>mallocs := [16]\<rparr>)"
  using read_path_success [of "bench_world\<lparr>serial_in := ''2\<newline>10 20\<newline>30 40\<newline>''\<rparr>"
      bench_platform "''2''" "''10 20\<newline>30 40\<newline>''" 2 "[''10 20'', ''30 40'']" "[]"]
  by (simp add: bench_defs)

text \<open>
  C1 as stated fails. With the count 2 in range and both lines present, an allocator that
  refuses the block makes the call return 0 with status 2. With the count 256 in range
  (the ceiling is 480) the 8-bit \<open>tmp_length\<close> is 0: the call returns 1 with length 0
  and an empty array, and reads no coordinate line.
\<close>

theorem read_path_success_fails:
  "declared_count bench_platform ''2'' = 2 \<and>
   declared_count bench_platform ''256'' = 256 \<and>
   uint (max_path_size bench_platform) = 480 \<and>
   read_path (bench_platform\<lparr>malloc_ok := \<lambda>n. False\<rparr>)
     (bench_world\<lparr>serial_in := ''2\<newline>10 20\<newline>30 40\<newline>''\<rparr>) =
     Some (0, 2, None,
           bench_world\<lparr>path_errno := 2, serial_in := ''10 20\<newline>30 40\<newline>'',
             mallocs := [16]\<rparr>) \<and>
   read_path bench_platform (bench_world\<lparr>serial_in := ''256\<newline>10 20\<newline>''\<rparr>) =
     Some (1, 0, Some [], bench_world\<lparr>serial_in := ''10 20\<newline>'', mallocs := [0]\<rparr>)"
  by code_simp

text \<open>
  C3. For every declared count \<open>N\<close> with \<open>N < 0\<close> or \<open>N > max_path_size\<close>,
  \<open>read_path\<close> returns 0, the output length is 0, the output path is the null pointer
  and \<open>path_errno\<close> is 1. The state is otherwise the one before the call with the count
  line taken off the input: no allocation was requested and no coordinate line was read.
\<close>

theorem read_path_invalid:
  assumes "serial_in w \<noteq> []"
    and "serial_readline P 40 (serial_in w) = Some (line, rest)"
    and "N = declared_count P line"
    and "N < 0 \<or> uint (max_path_size P) < N"
  shows "read_path P w = Some (0, 0, None, w\<lparr>path_errno := 1, serial_in := rest\<rparr>) \<and>
         mallocs (w\<lparr>path_errno := 1, serial_in := rest\<rparr>) = mallocs w"
  using assms by (simp add: read_path_def Let_def range_check_iff declared_count_def)

text \<open>The counts \<open>-1\<close> and 500 (above the ceiling of 480) on the bench board.\<close>

theorem read_path_invalid_witness:
  "declared_count bench_platform ''-1'' = - 1 \<and>
   read_path bench_platform (bench_world\<lparr>serial_in := ''-1\<newline>10 20\<newline>''\<rparr>) =
     Some (0, 0, None, bench_world\<lparr>path_errno := 1, serial_in := ''10 20\<newline>''\<rparr>) \<and>
   declared_count bench_platform ''500'' = 500 \<and>
   uint (max_path_size bench_platform) = 480 \<and>
   read_path bench_platform (bench_world\<lparr>serial_in := ''500\<newline>10 20\<newline>''\<rparr>) =
     Some (0, 0, None, bench_world\<lparr>path_errno := 1, serial_in := ''10 20\<newline>''\<rparr>)"
  using read_path_invalid [of "bench_world\<lparr>serial_in := ''-1\<newline>10 20\<newline>''\<rparr>"
      bench_platform "''-1''" "''10 20\<newline>''" "- 1"]
    read_path_invalid [of "bench_world\<lparr>serial_in := ''500\<newline>10 20\<newline>''\<rparr>"
      bench_platform "''500''" "''10 20\<newline>''" 500]
  by (simp add: bench_defs)

text \<open>
  C4 (as amended). When the allocator refuses the block for \<open>N\<close> coordinates, with
  \<open>0 \<le> N \<le> max_path_size\<close> and \<open>N \<le> 255\<close>, \<open>read_path\<close> returns 0,
  \<open>path_errno\<close> is 2 and the output path is the null pointer; the output length is
  \<open>N\<close>, stored before the allocation was attempted. The refused request is the only
  one, and no coordinate line was read.
\<close>

theorem read_path_out_of_memory:
  assumes avail: "serial_in w \<noteq> []"
    and count: "serial_readline P 40 (serial_in w) = Some (line, rest)"
    and N: "N = declared_count P line"
    and range: "0 \<le> N" "N \<le> uint (max_path_size P)" "N \<le> 255"
    and refuse: "\<not> malloc_ok P (of_int N * sizeof_coord_t P)"
  shows "read_path P w =
           Some (0, of_int N, None,
                 w\<lparr>path_errno := 2, serial_in := rest,
                   mallocs := mallocs w @ [of_int N * sizeof_coord_t P]\<rparr>) \<and>
         uint (of_int N :: 16 word) = N"
proof -
  define tmp_length :: "8 word"
    where "tmp_length = ucast (string_get_int P (fst (string_read_field P line 0 20 '' '')))"
  have fv: "sint (string_get_int P (fst (string_read_field P line 0 20 '' ''))) = N"
    using N by (simp add: declared_count_def)
  have len: "(ucast tmp_length :: 16 word) = of_int N"
    unfolding tmp_length_def by (rule count_stored(1) [OF fv range(1,3)])
  have test: "0 \<le> declared_count P line" "declared_count P line \<le> uint (max_path_size P)"
    using range N by simp_all
  have no: "\<not> malloc_ok P (ucast tmp_length * sizeof_coord_t P)"
    using refuse by (simp add: len)
  have "read_path P w = Some (0, ucast tmp_length, None,
           w\<lparr>path_errno := 2, serial_in := rest,
             mallocs := mallocs w @ [ucast tmp_length * sizeof_coord_t P]\<rparr>)"
    by (rule read_path_refused [OF avail count test tmp_length_def no])
  then show ?thesis using range by (simp add: len uint_count16)
qed

text \<open>One coordinate declared, on a board whose allocator refuses everything.\<close>

theorem read_path_out_of_memory_witness:
  "declared_count (bench_platform\<lparr>malloc_ok := \<lambda>n. False\<rparr>) ''1'' = 1 \<and>
   read_path (bench_platform\<lparr>malloc_ok := \<lambda>n. False\<rparr>)
     (bench_world\<lparr>serial_in := ''1\<newline>10 20\<newline>''\<rparr>) =
     Some (0, 1, None,
           bench_world\<lparr>path_errno := 2, serial_in := ''10 20\<newline>'', mallocs := [8]\<rparr>)"
  using read_path_out_of_memory [of "bench_world\<lparr>serial_in := ''1\<newline>10 20\<newline>''\<rparr>"
      "bench_platform\<lparr>malloc_ok := \<lambda>n. False\<rparr>" "''1''" "''10 20\<newline>''" 1]
  by (simp add: bench_defs)

text \<open>C4 as stated fails: three coordinates declared and the block refused, the caller
  sees the length 3 beside the null pointer, not 0.\<close>

theorem read_path_refused_keeps_length:
  "read_path (bench_platform\<lparr>malloc_ok := \<lambda>n. False\<rparr>)
     (bench_world\<lparr>serial_in := ''3\<newline>10 20\<newline>30 40\<newline>50 60\<newline>''\<rparr>) =
   Some (0, 3, None,
         bench_world\<lparr>path_errno := 2, serial_in := ''10 20\<newline>30 40\<newline>50 60\<newline>'',
           mallocs := [24]\<rparr>)"
  by code_simp

text \<open>
  C7. With less memory free than the reserve of 256 bytes the difference
  \<open>AVAIL_MEM - 256\<close> wraps as a 16-bit unsigned value, and the ceiling is large instead
  of zero or negative. With 100 bytes free the ceiling is 8172, and a stream declaring one
  coordinate passes the range check, reaches the allocator and is read with status 0. The
  ceiling is not monotone either: 128 bytes free give 8176, twice as many give 0.
\<close>

theorem max_path_size_wraps:
  "max_path_size (bench_platform\<lparr>AVAIL_MEM := 100\<rparr>) = 8172 \<and>
   read_path (bench_platform\<lparr>AVAIL_MEM := 100\<rparr>)
     (bench_world\<lparr>serial_in := ''1\<newline>10 20\<newline>''\<rparr>) =
     Some (1, 1, Some [\<lparr>lat = 10, lon = 20\<rparr>], bench_world\<lparr>mallocs := [8]\<rparr>) \<and>
   max_path_size (bench_platform\<lparr>AVAIL_MEM := 128\<rparr>) = 8176 \<and>
   max_path_size (bench_platform\<lparr>AVAIL_MEM := 2 * 128\<rparr>) = 0"
  by code_simp

section \<open>Claims about the renderer\<close>

text \<open>
  C5. The claim: for every point and every viewport, \<open>is_coord_visible\<close> answers true
  exactly when \<open>viewport.x < pixel_x < viewport.x + width\<close> and
  \<open>viewport.y < pixel_y < viewport.y + height\<close>, all four inequalities strict. The code
  keeps only the low 16 bits of each conversion in \<open>point_map_x\<close> and \<open>point_map_y\<close>,
  where \<open>draw_path\<close> keeps all 32. On the bench board, whose window is 128 wide at the
  origin, a point whose pixel position is \<open>(65556, 10)\<close> lies far to the right of the
  window; the test sees \<open>x = 20\<close> and answers 1.
\<close>

theorem is_coord_visible_cuts_pixel:
  "pixel_x bench_platform bench_world \<lparr>lat = 10, lon = 65556\<rparr> = 65556 \<and>
   pixel_y bench_platform bench_world \<lparr>lat = 10, lon = 65556\<rparr> = 10 \<and>
   uint (screen_map_x bench_world) + uint (display_window_width bench_world) = 128 \<and>
   uint (screen_map_y bench_world) + uint (display_window_height bench_world) = 160 \<and>
   fst (is_coord_visible bench_platform \<lparr>lat = 10, lon = 65556\<rparr> bench_world) = 1"
  by (simp add: is_coord_visible_def bench_platform_def bench_world_def pixel_x_def pixel_y_def)

text \<open>
  C6. For a length of at most 255 \<open>draw_path\<close> ends, and the drawing commands it has
  issued by then are, in order, one line for each candidate segment \<open>(path[i], path[i+1])\<close>
  inside the array whose two end points are both visible, and nothing for the other
  segments. The line is in \<open>ST7735_BLUE\<close> and joins the two end points in screen-local
  coordinates, the map-pixel coordinates minus the viewport origin. No segment is clipped.
\<close>

theorem draw_path_segments:
  assumes "unat len \<le> 255"
  shows "\<exists>out. draw_path P len path w = Some out \<and>
           tft (final_world out) =
           tft w @ map (segment_line P w path)
                     (filter (segment_visible P w path)
                        [0..<min (unat len) (length path - 1)])"
proof -
  let ?w1 = "w\<lparr>serial_out := serial_out w @ [Println_str ''Path Received: '']\<rparr>"
  have vp: "viewport ?w1 = viewport w" by (rule received_viewport)
  have "tft (foldl (draw_path_step P path) ?w1 ns) =
        tft w @ map (segment_line P w path) (filter (segment_visible P w path) ns)" for ns
    using steps_tft [OF vp, of P path ns] by simp
  then show ?thesis
    using draw_path_outcome [OF assms, of P path w]
    by (auto simp: final_world_simps)
qed

text \<open>Three points on the bench board, the middle one off the screen to the right: of the
  two segments inside the array neither is drawn; with the middle point on the screen
  both are.\<close>

theorem draw_path_segments_witness:
  "unat (2 :: 16 word) \<le> 255 \<and>
   (\<exists>out. draw_path bench_platform 2
            [\<lparr>lat = 10, lon = 20\<rparr>, \<lparr>lat = 30, lon = 400\<rparr>, \<lparr>lat = 50, lon = 60\<rparr>]
            bench_world = Some out \<and>
          tft (final_world out) = []) \<and>
   (\<exists>out. draw_path bench_platform 2
            [\<lparr>lat = 10, lon = 20\<rparr>, \<lparr>lat = 30, lon = 40\<rparr>, \<lparr>lat = 50, lon = 60\<rparr>]
            bench_world = Some out \<and>
          tft (final_world out) =
            [DrawLine 20 10 40 30 ST7735_BLUE, DrawLine 40 30 60 50 ST7735_BLUE])"
  using draw_path_segments [of 2 bench_platform
      "[\<lparr>lat = 10, lon = 20\<rparr>, \<lparr>lat = 30, lon = 400\<rparr>, \<lparr>lat = 50, lon = 60\<rparr>]" bench_world]
    draw_path_segments [of 2 bench_platform
      "[\<lparr>lat = 10, lon = 20\<rparr>, \<lparr>lat = 30, lon = 40\<rparr>, \<lparr>lat = 50, lon = 60\<rparr>]" bench_world]
  by (simp add: segment_visible_def segment_line_def screen_local_def point_visible_def
      is_coord_visible_def bench_platform_def bench_world_def upt_rec)

text \<open>
  C2 (as amended). For every path of length between 1 and 255, held in an array of that
  many elements, the segment loop reads \<open>path[i+1]\<close> only when \<open>path[i]\<close> is visible.
  So the call reads the element at index \<open>length\<close>, one slot past the last valid index,
  exactly when the last point \<open>path[length - 1]\<close> is visible; when it is not, the call
  returns without reading past the end.
\<close>

theorem draw_path_last_read:
  assumes "1 \<le> unat len" and "unat len \<le> 255" and "length path = unat len"
  shows "(point_visible P w (path ! (unat len - 1)) \<longrightarrow>
            (\<exists>w'. draw_path P len path w = Some (Inl (OutOfBounds (unat len), w')))) \<and>
         (\<not> point_visible P w (path ! (unat len - 1)) \<longrightarrow>
            (\<exists>w'. draw_path P len path w = Some (Inr w')))"
proof -
  have "path \<noteq> []" using assms by auto
  then show ?thesis
    using draw_path_outcome [OF assms(2), of P path w] assms(1,3) by simp
qed

text \<open>Two points on the bench board: with the last one on the screen the read at index 2
  happens, with the last one off the screen the call returns.\<close>

theorem draw_path_last_read_witness:
  "1 \<le> unat (2 :: 16 word) \<and> unat (2 :: 16 word) \<le> 255 \<and>
   length [\<lparr>lat = 10, lon = 20\<rparr>, \<lparr>lat = 30, lon = 40\<rparr>] = unat (2 :: 16 word) \<and>
   point_visible bench_platform bench_world \<lparr>lat = 30, lon = 40\<rparr> \<and>
   (\<exists>w'. draw_path bench_platform 2 [\<lparr>lat = 10, lon = 20\<rparr>, \<lparr>lat = 30, lon = 40\<rparr>]
            bench_world = Some (Inl (OutOfBounds 2, w'))) \<and>
   \<not> point_visible bench_platform bench_world \<lparr>lat = 30, lon = 400\<rparr> \<and>
   (\<exists>w'. draw_path bench_platform 2 [\<lparr>lat = 10, lon = 20\<rparr>, \<lparr>lat = 30, lon = 400\<rparr>]
            bench_world = Some (Inr w'))"
  using draw_path_last_read [of 2 "[\<lparr>lat = 10, lon = 20\<rparr>, \<lparr>lat = 30, lon = 40\<rparr>]"
      bench_platform bench_world]
    draw_path_last_read [of 2 "[\<lparr>lat = 10, lon = 20\<rparr>, \<lparr>lat = 30, lon = 400\<rparr>]"
      bench_platform bench_world]
  by (simp add: point_visible_def is_coord_visible_def bench_platform_def bench_world_def)

text \<open>C2 as stated fails: a path of length 1 whose only point is off the screen is
  drawn without any read at index 1; the call returns.\<close>

theorem draw_path_hidden_end:
  "draw_path bench_platform 1 [\<lparr>lat = 30, lon = 400\<rparr>] bench_world =
   Some (Inr (bench_world\<lparr>serial_out := [Println_str ''Path Received: '']\<rparr>))"
  using draw_path_outcome [of 1 bench_platform "[\<lparr>lat = 30, lon = 400\<rparr>]" bench_world]
  by (simp add: point_visible_def is_coord_visible_def bench_platform_def bench_world_def)

text \<open>
  C8. With a zero-length path, held in an array of no element, \<open>draw_path\<close> issues no
  drawing command but reads \<open>path[0]\<close>, outside the array, before its segment loop. With
  a path of length 1 whose point is visible it reads \<open>path[1]\<close>, outside the array, as the
  far end of a segment; no drawing command has been issued by then.
\<close>

theorem draw_path_short_paths:
  "draw_path bench_platform 0 [] bench_world =
     Some (Inl (OutOfBounds 0, bench_world\<lparr>serial_out := [Println_str ''Path Received: '']\<rparr>)) \<and>
   draw_path bench_platform 1 [\<lparr>lat = 10, lon = 20\<rparr>] bench_world =
     Some (Inl (OutOfBounds 1, bench_world\<lparr>serial_out := [Println_str ''Path Received: '']\<rparr>))"
  using draw_path_outcome [of 0 bench_platform "[]" bench_world]
    draw_path_outcome [of 1 bench_platform "[\<lparr>lat = 10, lon = 20\<rparr>]" bench_world]
  by (simp add: point_visible_def is_coord_visible_def bench_platform_def bench_world_def)

text \<open>
  C9. \<open>draw_path\<close> returns if and only if its length is at most 255. From 256 on the
  8-bit counter stays below the 16-bit length: the first loop never ends, from whichever
  counter value, and the segment loop never leaves through its exit test.
\<close>

theorem draw_path_total_iff:
  "(draw_path P len path w = None) = (256 \<le> unat len) \<and>
   (256 \<le> unat len \<longrightarrow>
      draw_path_print_loop len i = None \<and>
      (\<forall>w'. draw_path_loop P len path i w \<noteq> Some (Inr w')))"
proof -
  have a: "256 \<le> unat len \<longrightarrow> draw_path P len path w = None"
    by (simp add: draw_path_def print_loop_diverges)
  have b: "\<not> 256 \<le> unat len \<longrightarrow> draw_path P len path w \<noteq> None"
  proof
    assume "\<not> 256 \<le> unat len"
    then have "unat len \<le> 255" by simp
    from draw_path_outcome [OF this, of P path w] show "draw_path P len path w \<noteq> None" by simp
  qed
  have c: "256 \<le> unat len \<longrightarrow> draw_path_loop P len path i w \<noteq> Some (Inr w')" for w'
    using draw_path_loop_no_exit [of len P path i w "Inr w'"] by auto
  from a b c show ?thesis by (auto simp: print_loop_diverges)
qed

text \<open>Lengths 256 and 255 on the bench board.\<close>

theorem draw_path_total_iff_witness:
  "256 \<le> unat (256 :: 16 word) \<and>
   draw_path bench_platform 256 [\<lparr>lat = 10, lon = 20\<rparr>] bench_world = None \<and>
   draw_path_print_loop 256 0 = None \<and>
   draw_path bench_platform 255 [\<lparr>lat = 10, lon = 20\<rparr>] bench_world \<noteq> None"
  using draw_path_total_iff [of bench_platform 256 "[\<lparr>lat = 10, lon = 20\<rparr>]" bench_world 0]
    draw_path_total_iff [of bench_platform 255 "[\<lparr>lat = 10, lon = 20\<rparr>]" bench_world 0]
  by simp

text \<open>
  C10. Whatever \<open>draw_path\<close> ends in, a return or a read outside the array, the map
  number, the viewport origin and the window width and height are what they were before
  the call; and \<open>is_coord_visible\<close> hands the state back with the same five values.
\<close>

theorem renderer_keeps_viewport:
  "(draw_path P len path w = Some out \<longrightarrow> viewport (final_world out) = viewport w) \<and>
   viewport (snd (is_coord_visible P c w)) = viewport w"
proof -
  have "viewport (final_world out) = viewport w" if ret: "draw_path P len path w = Some out"
  proof (cases "unat len \<le> 255")
    case True
    let ?w1 = "w\<lparr>serial_out := serial_out w @ [Println_str ''Path Received: '']\<rparr>"
    have vp: "viewport (foldl (draw_path_step P path) ?w1 ns) = viewport w" for ns
      by (simp add: steps_viewport received_viewport)
    have vp1: "viewport ?w1 = viewport w" by (rule received_viewport)
    from draw_path_outcome [OF True, of P path w] ret show ?thesis
      by (auto simp: final_world_simps vp vp1 split: if_splits)
  next
    case False
    then have "draw_path P len path w = None"
      by (simp add: draw_path_def print_loop_diverges)
    with ret show ?thesis by simp
  qed
  then show ?thesis by (simp add: is_coord_visible_state)
qed

text \<open>One visible segment drawn on the bench board: a line went to the display and the
  viewport is the bench's.\<close>

theorem renderer_keeps_viewport_witness:
  "draw_path bench_platform 1 [\<lparr>lat = 10, lon = 20\<rparr>, \<lparr>lat = 30, lon = 40\<rparr>] bench_world =
     Some (Inr (draw_path_line bench_platform \<lparr>lat = 10, lon = 20\<rparr> \<lparr>lat = 30, lon = 40\<rparr>
        (bench_world\<lparr>serial_out := [Println_str ''Path Received: '']\<rparr>))) \<and>
   viewport (final_world (Inr (draw_path_line bench_platform \<lparr>lat = 10, lon = 20\<rparr>
        \<lparr>lat = 30, lon = 40\<rparr>
        (bench_world\<lparr>serial_out := [Println_str ''Path Received: '']\<rparr>)))) =
     viewport bench_world"
  using renderer_keeps_viewport [of bench_platform 1
      "[\<lparr>lat = 10, lon = 20\<rparr>, \<lparr>lat = 30, lon = 40\<rparr>]" bench_world]
    draw_path_outcome [of 1 bench_platform
      "[\<lparr>lat = 10, lon = 20\<rparr>, \<lparr>lat = 30, lon = 40\<rparr>]" bench_world]
  by (simp add: draw_path_step_def segment_visible_def point_visible_def
      is_coord_visible_def bench_platform_def bench_world_def)

end
